theory Spec2Isabelle
  imports Main
begin

section \<open>Entities\<close>

text \<open>
  \<^verbatim>\<open>base.entity.ts\<close>: the four columns every entity has, each optional on the
  TypeScript side (\<^verbatim>\<open>id?: number\<close>, \<^verbatim>\<open>createdAt?: Date\<close>, ...). An absent or null
  column is \<open>None\<close>. A \<^verbatim>\<open>Date\<close> is the instant it denotes. The field \<^verbatim>\<open>id\<close> is
  written \<open>idE\<close>, since \<open>id\<close> is the identity function of HOL. A concrete entity
  class extends the record, as \<^verbatim>\<open>User extends BaseEntity\<close> does.
\<close>

type_synonym Date = nat

record BaseEntity =
  idE :: "int option"
  createdAt :: "Date option"
  updatedAt :: "Date option"
  deletedAt :: "Date option"

record User = BaseEntity +
  email :: string
  password :: string
  name :: string

section \<open>Errors and promises\<close>

text \<open>
  Modelled from the spec: the exception class \<^verbatim>\<open>EntityNotFound\<close>, imported from
  \<^verbatim>\<open>src/common/exceptions/exceptions\<close>, a file that is not among the sources. "Single
  domain error kind: EntityNotFound, parameterized by the entity's logical name."
\<close>

datatype error = EntityNotFound string

text \<open>
  An \<^verbatim>\<open>async\<close> function returns a promise: a computation over the storage that
  settles with an error (\<open>Inl\<close>, a rejection) or a value (\<open>Inr\<close>). \<open>await p k\<close> runs
  \<open>p\<close> and continues with \<open>k\<close> on its value; a rejection propagates.
\<close>

type_synonym ('s, 'a) promise = "'s \<Rightarrow> (error + 'a) \<times> 's"

definition resolve :: "'a \<Rightarrow> ('s, 'a) promise" where
  "resolve x = (\<lambda>s. (Inr x, s))"

definition reject :: "error \<Rightarrow> ('s, 'a) promise" where
  "reject e = (\<lambda>s. (Inl e, s))"

definition await :: "('s, 'a) promise \<Rightarrow> ('a \<Rightarrow> ('s, 'b) promise) \<Rightarrow> ('s, 'b) promise" where
  "await p k = (\<lambda>s. case p s of (Inl e, s') \<Rightarrow> (Inl e, s') | (Inr x, s') \<Rightarrow> k x s')"

text \<open>A synchronous call that may throw, inside an \<^verbatim>\<open>async\<close> function.\<close>

definition try_call :: "error + 'a \<Rightarrow> ('s, 'a) promise" where
  "try_call r = (case r of Inl e \<Rightarrow> reject e | Inr x \<Rightarrow> resolve x)"

text \<open>
  JavaScript's truth test of a promise object, as \<^verbatim>\<open>if (entity)\<close> applies it to a call
  that was not awaited: every object is truthy, whatever the promise settles with.
\<close>

definition truthy :: "('s, 'a) promise \<Rightarrow> bool" where
  "truthy p = True"

section \<open>The storage interface\<close>

text \<open>
  \<^verbatim>\<open>FindOptionsWhere\<close> is a condition on a record; \<^verbatim>\<open>FindOneOptions\<close> and
  \<^verbatim>\<open>FindManyOptions\<close> carry an optional condition, optional relations and the
  \<^verbatim>\<open>withDeleted\<close> flag (absent is false). \<^verbatim>\<open>QueryDeepPartialEntity\<close>, the patch of
  an update, is the change it makes to a record. \<^verbatim>\<open>UpdateResult\<close> reports the count
  of affected rows, which a driver may leave null.
\<close>

type_synonym 'e FindOptionsWhere = "'e \<Rightarrow> bool"

type_synonym 'e QueryDeepPartialEntity = "'e \<Rightarrow> 'e"

type_synonym FindOptionsRelations = "string list"

record 'e FindOptions =
  where_opt :: "'e FindOptionsWhere option"
  relations :: "FindOptionsRelations option"
  withDeleted :: bool

record UpdateResult =
  affected :: "nat option"

text \<open>The object literal \<^verbatim>\<open>{ where, relations }\<close>.\<close>

definition where_relations ::
  "'e FindOptionsWhere \<Rightarrow> FindOptionsRelations option \<Rightarrow> 'e FindOptions" where
  "where_relations w rel = \<lparr>where_opt = Some w, relations = rel, withDeleted = False\<rparr>"

text \<open>
  The object literal \<^verbatim>\<open>{ id }\<close> as a condition: the record's identity is \<open>id\<close>. The
  service builds it from a number, or from the \<^verbatim>\<open>id\<close> of the record a save returned.
\<close>

definition where_id :: "int option \<Rightarrow> 'a BaseEntity_scheme FindOptionsWhere" where
  "where_id i = (\<lambda>r. idE r = i)"

text \<open>
  Modelled from the spec: the state behind \<^verbatim>\<open>this.manager\<close>, the entity manager of the
  object-relational mapper, an external library whose code is not in the repository.
  The repository calls it with \<^verbatim>\<open>this.entityClass\<close> only, so the state is the table
  of that class: its rows in insertion order, the name the class is registered under
  (\<^verbatim>\<open>metadata.name\<close>), and the storage's clock, which gives "the current time".
\<close>

record 'e EntityManager =
  rows :: "'e list"
  metadata_name :: string
  clock :: Date

text \<open>
  Modelled from the spec: which records a lookup of the mapper sees. "A record with
  non-null deleted-at is excluded from default lookups unless explicitly requested."
\<close>

definition matches :: "'a BaseEntity_scheme FindOptions \<Rightarrow> 'a BaseEntity_scheme \<Rightarrow> bool" where
  "matches options r =
     ((case where_opt options of None \<Rightarrow> True | Some w \<Rightarrow> w r) \<and>
      (withDeleted options \<or> deletedAt r = None))"

text \<open>Modelled from the spec: the options of a lookup called with none, the default.\<close>

definition default_options :: "'e FindOptions" where
  "default_options = \<lparr>where_opt = None, relations = None, withDeleted = False\<rparr>"

text \<open>
  Modelled from the spec: \<^verbatim>\<open>manager.find\<close> of the mapper, find-many with a filter.
  "Returns all matches (possibly empty); default options exclude soft-deleted records."
\<close>

definition manager_find ::
  "'a BaseEntity_scheme FindOptions option \<Rightarrow>
   ('a BaseEntity_scheme EntityManager, 'a BaseEntity_scheme list) promise" where
  "manager_find options = (\<lambda>m.
     (Inr (filter (matches (case options of None \<Rightarrow> default_options | Some opts \<Rightarrow> opts))
            (rows m)), m))"

text \<open>
  Modelled from the spec: \<^verbatim>\<open>manager.findOne\<close> of the mapper, find-one with a filter.
  "Returns the first matching record or an explicit absent result (never an error) when
  no match exists."
\<close>

definition manager_findOne ::
  "'a BaseEntity_scheme FindOptions \<Rightarrow>
   ('a BaseEntity_scheme EntityManager, 'a BaseEntity_scheme option) promise" where
  "manager_findOne options = (\<lambda>m.
     (Inr (case filter (matches options) (rows m) of [] \<Rightarrow> None | r # _ \<Rightarrow> Some r), m))"

text \<open>
  Modelled from the spec: the identity the storage generates, "a unique, system-assigned
  integer identifier": one more than the largest identity of the table.
\<close>

definition generated_id :: "'a BaseEntity_scheme list \<Rightarrow> int" where
  "generated_id rs = 1 + fold (\<lambda>r n. case idE r of None \<Rightarrow> n | Some i \<Rightarrow> max i n) rs 0"

text \<open>
  Modelled from the spec: \<^verbatim>\<open>manager.save\<close> of the mapper, insert. "Persists a new
  record; returns the persisted value including assigned identity and timestamps." The
  creation and update timestamps are the server-assigned ones; the other columns are
  stored as the record has them.
\<close>

definition manager_save ::
  "'a BaseEntity_scheme \<Rightarrow>
   ('a BaseEntity_scheme EntityManager, 'a BaseEntity_scheme) promise" where
  "manager_save d = (\<lambda>m.
     let saved = d\<lparr>idE := Some (generated_id (rows m)),
                   createdAt := Some (clock m), updatedAt := Some (clock m)\<rparr>
     in (Inr saved, m\<lparr>rows := rows m @ [saved], clock := Suc (clock m)\<rparr>))"

text \<open>
  Modelled from the spec: \<^verbatim>\<open>manager.update\<close> of the mapper, update by filter.
  "Applies patch to all matching records' storage rows": every row the condition holds
  of, soft-deleted or not. The update timestamp is "refreshed on every mutation".
\<close>

definition manager_update ::
  "'a BaseEntity_scheme FindOptionsWhere \<Rightarrow> 'a BaseEntity_scheme QueryDeepPartialEntity \<Rightarrow>
   ('a BaseEntity_scheme EntityManager, UpdateResult) promise" where
  "manager_update w d = (\<lambda>m.
     (Inr \<lparr>affected = Some (length (filter w (rows m)))\<rparr>,
      m\<lparr>rows := map (\<lambda>r. if w r then (d r)\<lparr>updatedAt := Some (clock m)\<rparr> else r) (rows m),
        clock := Suc (clock m)\<rparr>))"

text \<open>
  Modelled from the spec: \<^verbatim>\<open>manager.softDelete\<close> of the mapper, soft delete by filter.
  "Sets deletedAt to the current time for matching rows; returns the count affected."
  A record that is already soft-deleted does not match: the "filter excludes it by
  default".
\<close>

definition manager_softDelete ::
  "'a BaseEntity_scheme FindOptionsWhere \<Rightarrow>
   ('a BaseEntity_scheme EntityManager, UpdateResult) promise" where
  "manager_softDelete w = (\<lambda>m.
     let hit = (\<lambda>r. w r \<and> deletedAt r = None)
     in (Inr \<lparr>affected = Some (length (filter hit (rows m)))\<rparr>,
         m\<lparr>rows := map (\<lambda>r. if hit r
                               then r\<lparr>updatedAt := Some (clock m), deletedAt := Some (clock m)\<rparr>
                               else r) (rows m),
           clock := Suc (clock m)\<rparr>))"

text \<open>
  Modelled from the spec: \<^verbatim>\<open>manager.restore\<close> of the mapper, restore by filter.
  "Clears deletedAt for matching rows; returns count affected." It is the filter
  "expecting deletedAt non-null": only soft-deleted records match.
\<close>

definition manager_restore ::
  "'a BaseEntity_scheme FindOptionsWhere \<Rightarrow>
   ('a BaseEntity_scheme EntityManager, UpdateResult) promise" where
  "manager_restore w = (\<lambda>m.
     let hit = (\<lambda>r. w r \<and> deletedAt r \<noteq> None)
     in (Inr \<lparr>affected = Some (length (filter hit (rows m)))\<rparr>,
         m\<lparr>rows := map (\<lambda>r. if hit r
                               then r\<lparr>updatedAt := Some (clock m), deletedAt := None\<rparr>
                               else r) (rows m),
           clock := Suc (clock m)\<rparr>))"

section \<open>BaseRepository\<close>

text \<open>
  The repository object: its private field \<^verbatim>\<open>entity\<close>, which the constructor reads
  from the manager's metadata. The manager it holds is the state the operations thread.
\<close>

record BaseRepository =
  entity :: string

definition BaseRepository_new :: "'e EntityManager \<Rightarrow> BaseRepository" where
  "BaseRepository_new m = \<lparr>entity = metadata_name m\<rparr>"

definition entityName :: "BaseRepository \<Rightarrow> string" where
  "entityName this = entity this"

text \<open>
  The argument of \<^verbatim>\<open>checkEntityExist\<close>, of type \<^verbatim>\<open>number | null | Entity\<close>, and the two
  ways a caller builds it: from a record or null, and from an affected count or null.
\<close>

datatype 'e data = Number nat | Null | Entity 'e

definition of_entity :: "'e option \<Rightarrow> 'e data" where
  "of_entity x = (case x of None \<Rightarrow> Null | Some e \<Rightarrow> Entity e)"

definition of_affected :: "nat option \<Rightarrow> 'e data" where
  "of_affected x = (case x of None \<Rightarrow> Null | Some n \<Rightarrow> Number n)"

definition checkEntityExist :: "BaseRepository \<Rightarrow> 'e data \<Rightarrow> error + unit" where
  "checkEntityExist this d =
     (if d = Number 0 \<or> d = Null then Inl (EntityNotFound (entityName this)) else Inr ())"

text \<open>
  The methods, in the order of the class. \<^verbatim>\<open>findOneOrFail\<close> and \<^verbatim>\<open>updateOrFail\<close>
  return the variable they checked, a record or null as it was read; past the check it
  is a record.
\<close>

definition BaseRepository_create ::
  "BaseRepository \<Rightarrow> 'a BaseEntity_scheme \<Rightarrow>
   ('a BaseEntity_scheme EntityManager, 'a BaseEntity_scheme) promise" where
  "BaseRepository_create this d = await (manager_save d) resolve"

definition BaseRepository_find ::
  "BaseRepository \<Rightarrow> 'a BaseEntity_scheme FindOptions option \<Rightarrow>
   ('a BaseEntity_scheme EntityManager, 'a BaseEntity_scheme list) promise" where
  "BaseRepository_find this options = await (manager_find options) resolve"

definition BaseRepository_findOne ::
  "BaseRepository \<Rightarrow> 'a BaseEntity_scheme FindOptions \<Rightarrow>
   ('a BaseEntity_scheme EntityManager, 'a BaseEntity_scheme option) promise" where
  "BaseRepository_findOne this filter_opts = await (manager_findOne filter_opts) resolve"

definition BaseRepository_findOneOrFail ::
  "BaseRepository \<Rightarrow> 'a BaseEntity_scheme FindOptions \<Rightarrow>
   ('a BaseEntity_scheme EntityManager, 'a BaseEntity_scheme option) promise" where
  "BaseRepository_findOneOrFail this filter_opts =
     await (BaseRepository_findOne this filter_opts) (\<lambda>found.
     await (try_call (checkEntityExist this (of_entity found))) (\<lambda>_.
     resolve found))"

text \<open>
  \<^verbatim>\<open>findOrCreate\<close> binds \<^verbatim>\<open>entity\<close> to the call \<^verbatim>\<open>this.findOne(where)\<close> without
  awaiting it, so both tests are on the promise. Returning a promise from an
  \<^verbatim>\<open>async\<close> function settles the result as that promise settles. Past both tests the
  function would fall off its end.
\<close>

definition BaseRepository_findOrCreate ::
  "BaseRepository \<Rightarrow> 'a BaseEntity_scheme FindOptions \<Rightarrow> 'a BaseEntity_scheme \<Rightarrow>
   ('a BaseEntity_scheme EntityManager, 'a BaseEntity_scheme option) promise" where
  "BaseRepository_findOrCreate this w d =
     (let found = BaseRepository_findOne this w in
      if truthy found then found
      else if \<not> truthy found then await (BaseRepository_create this d) (\<lambda>e. resolve (Some e))
      else resolve None)"

definition BaseRepository_update ::
  "BaseRepository \<Rightarrow> 'a BaseEntity_scheme FindOptionsWhere \<Rightarrow>
   'a BaseEntity_scheme QueryDeepPartialEntity \<Rightarrow> FindOptionsRelations option \<Rightarrow>
   ('a BaseEntity_scheme EntityManager, 'a BaseEntity_scheme option) promise" where
  "BaseRepository_update this w d rel =
     await (manager_update w d) (\<lambda>_.
     await (manager_findOne (where_relations w rel)) resolve)"

definition BaseRepository_updateOrFail ::
  "BaseRepository \<Rightarrow> 'a BaseEntity_scheme FindOptionsWhere \<Rightarrow>
   'a BaseEntity_scheme QueryDeepPartialEntity \<Rightarrow> FindOptionsRelations option \<Rightarrow>
   ('a BaseEntity_scheme EntityManager, 'a BaseEntity_scheme option) promise" where
  "BaseRepository_updateOrFail this w d rel =
     await (BaseRepository_update this w d rel) (\<lambda>updated.
     await (try_call (checkEntityExist this (of_entity updated))) (\<lambda>_.
     resolve updated))"

definition BaseRepository_softDelete ::
  "BaseRepository \<Rightarrow> 'a BaseEntity_scheme FindOptionsWhere \<Rightarrow>
   ('a BaseEntity_scheme EntityManager, UpdateResult) promise" where
  "BaseRepository_softDelete this w = await (manager_softDelete w) resolve"

definition BaseRepository_deleteOrFail ::
  "BaseRepository \<Rightarrow> 'a BaseEntity_scheme FindOptionsWhere \<Rightarrow>
   ('a BaseEntity_scheme EntityManager, bool) promise" where
  "BaseRepository_deleteOrFail this w =
     await (BaseRepository_softDelete this w) (\<lambda>res.
     await (try_call (checkEntityExist this (of_affected (affected res) :: 'a BaseEntity_scheme data))) (\<lambda>_.
     resolve True))"

definition BaseRepository_restore ::
  "BaseRepository \<Rightarrow> 'a BaseEntity_scheme FindOptionsWhere \<Rightarrow>
   ('a BaseEntity_scheme EntityManager, UpdateResult) promise" where
  "BaseRepository_restore this w = await (manager_restore w) resolve"

definition BaseRepository_restoreOrFail ::
  "BaseRepository \<Rightarrow> 'a BaseEntity_scheme FindOptionsWhere \<Rightarrow>
   ('a BaseEntity_scheme EntityManager, bool) promise" where
  "BaseRepository_restoreOrFail this w =
     await (BaseRepository_restore this w) (\<lambda>res.
     await (try_call (checkEntityExist this (of_affected (affected res) :: 'a BaseEntity_scheme data))) (\<lambda>_.
     resolve True))"

section \<open>BaseService\<close>

text \<open>The service object holds its repository; every method goes through it.\<close>

record BaseService =
  repository :: BaseRepository

definition BaseService_find ::
  "BaseService \<Rightarrow> 'a BaseEntity_scheme FindOptions option \<Rightarrow>
   ('a BaseEntity_scheme EntityManager, 'a BaseEntity_scheme list) promise" where
  "BaseService_find this query = BaseRepository_find (repository this) query"

definition BaseService_findOneOrFail ::
  "BaseService \<Rightarrow> 'a BaseEntity_scheme FindOptions \<Rightarrow>
   ('a BaseEntity_scheme EntityManager, 'a BaseEntity_scheme option) promise" where
  "BaseService_findOneOrFail this query =
     await (BaseRepository_findOneOrFail (repository this) query) resolve"

definition BaseService_findOneByIdOrFail ::
  "BaseService \<Rightarrow> int \<Rightarrow>
   ('a BaseEntity_scheme EntityManager, 'a BaseEntity_scheme option) promise" where
  "BaseService_findOneByIdOrFail this i =
     await (BaseService_findOneOrFail this (where_relations (where_id (Some i)) None)) resolve"

definition BaseService_findOne ::
  "BaseService \<Rightarrow> 'a BaseEntity_scheme FindOptions \<Rightarrow>
   ('a BaseEntity_scheme EntityManager, 'a BaseEntity_scheme option) promise" where
  "BaseService_findOne this query =
     await (BaseRepository_findOne (repository this) query) resolve"

definition BaseService_create ::
  "BaseService \<Rightarrow> 'a BaseEntity_scheme \<Rightarrow>
   ('a BaseEntity_scheme EntityManager, 'a BaseEntity_scheme option) promise" where
  "BaseService_create this d =
     await (BaseRepository_create (repository this) d) (\<lambda>saved.
     BaseService_findOne this (where_relations (where_id (idE saved)) None))"

definition BaseService_update ::
  "BaseService \<Rightarrow> 'a BaseEntity_scheme FindOptionsWhere \<Rightarrow>
   'a BaseEntity_scheme QueryDeepPartialEntity \<Rightarrow> FindOptionsRelations option \<Rightarrow>
   ('a BaseEntity_scheme EntityManager, 'a BaseEntity_scheme option) promise" where
  "BaseService_update this w d rel =
     await (BaseRepository_updateOrFail (repository this) w d rel) resolve"

definition BaseService_updateById ::
  "BaseService \<Rightarrow> int \<Rightarrow>
   'a BaseEntity_scheme QueryDeepPartialEntity \<Rightarrow> FindOptionsRelations option \<Rightarrow>
   ('a BaseEntity_scheme EntityManager, 'a BaseEntity_scheme option) promise" where
  "BaseService_updateById this i d rel =
     await (BaseService_update this (where_id (Some i)) d rel) resolve"

definition BaseService_deleteById ::
  "BaseService \<Rightarrow> int \<Rightarrow> ('a BaseEntity_scheme EntityManager, bool) promise" where
  "BaseService_deleteById this i =
     await (BaseRepository_deleteOrFail (repository this) (where_id (Some i))) resolve"

definition BaseService_restoreById ::
  "BaseService \<Rightarrow> int \<Rightarrow> ('a BaseEntity_scheme EntityManager, bool) promise" where
  "BaseService_restoreById this i =
     await (BaseRepository_restoreOrFail (repository this) (where_id (Some i))) resolve"

definition BaseService_count ::
  "BaseService \<Rightarrow> 'a BaseEntity_scheme FindOptionsWhere \<Rightarrow>
   ('a BaseEntity_scheme EntityManager, nat) promise" where
  "BaseService_count this filter_w =
     await (BaseRepository_find (repository this)
              (Some \<lparr>where_opt = Some filter_w, relations = None, withDeleted = False\<rparr>))
       (\<lambda>total. resolve (length total))"

section \<open>The user module and sample data\<close>

text \<open>
  \<^verbatim>\<open>UserRepository\<close> is the repository over the class \<^verbatim>\<open>User\<close> and \<^verbatim>\<open>UserService\<close>
  the service over it. The sample table holds one live user and one that was
  soft-deleted.
\<close>

definition alice :: User where
  "alice = \<lparr>idE = Some 1, createdAt = Some 10, updatedAt = Some 10, deletedAt = None,
            email = ''a@x.com'', password = ''p'', name = ''A''\<rparr>"

definition bob :: User where
  "bob = \<lparr>idE = Some 2, createdAt = Some 11, updatedAt = Some 12, deletedAt = Some 12,
          email = ''b@x.com'', password = ''q'', name = ''B''\<rparr>"

definition carol :: User where
  "carol = \<lparr>idE = None, createdAt = None, updatedAt = None, deletedAt = None,
            email = ''c@x.com'', password = ''r'', name = ''C''\<rparr>"

definition user_table :: "User EntityManager" where
  "user_table = \<lparr>rows = [alice, bob], metadata_name = ''User'', clock = 20\<rparr>"

definition UserRepository :: BaseRepository where
  "UserRepository = BaseRepository_new user_table"

definition UserService :: BaseService where
  "UserService = \<lparr>repository = UserRepository\<rparr>"

text \<open>The filter \<^verbatim>\<open>{ where: { name: n } }\<close> over users.\<close>

definition named :: "string \<Rightarrow> User FindOptions" where
  "named n = \<lparr>where_opt = Some (\<lambda>u. name u = n), relations = None, withDeleted = False\<rparr>"

text \<open>What the storage holds once \<open>carol\<close> has been saved into the sample table.\<close>

definition carol_saved :: User where
  "carol_saved = carol\<lparr>idE := Some 3, createdAt := Some 20, updatedAt := Some 20\<rparr>"

definition user_table_saved :: "User EntityManager" where
  "user_table_saved = \<lparr>rows = [alice, bob, carol_saved], metadata_name = ''User'', clock = 21\<rparr>"

text \<open>The patch \<^verbatim>\<open>{ name: "B" }\<close> over users.\<close>

definition rename_B :: "User QueryDeepPartialEntity" where
  "rename_B = (\<lambda>u. u\<lparr>name := ''B''\<rparr>)"

text \<open>
  What the storage holds once the patch has been applied to the rows with identity 2 of
  the sample table: the soft-deleted \<open>bob\<close> is patched, and stays soft-deleted.
\<close>

definition user_table_patched :: "User EntityManager" where
  "user_table_patched =
     \<lparr>rows = [alice, bob\<lparr>updatedAt := Some 20\<rparr>], metadata_name = ''User'', clock = 21\<rparr>"

section \<open>Promises: basic laws\<close>

lemma await_resolve [simp]: "await p resolve = p"
  by (auto simp: await_def resolve_def fun_eq_iff split: prod.splits sum.splits)

lemma await_Inr: "p s = (Inr x, s') \<Longrightarrow> await p k s = k x s'"
  by (simp add: await_def)

lemma await_Inl: "p s = (Inl e, s') \<Longrightarrow> await p k s = (Inl e, s')"
  by (simp add: await_def)

lemmas promise_defs = resolve_def reject_def await_def try_call_def

section \<open>What each repository read computes\<close>

lemma matches_where_relations:
  "matches (where_relations w rel) = (\<lambda>r. w r \<and> deletedAt r = None)"
  by (simp add: fun_eq_iff matches_def where_relations_def)

lemma matches_where_only:
  "matches \<lparr>where_opt = Some w, relations = rel, withDeleted = False\<rparr> =
     (\<lambda>r. w r \<and> deletedAt r = None)"
  by (simp add: fun_eq_iff matches_def)

lemma matches_default: "matches default_options = (\<lambda>r. deletedAt r = None)"
  by (simp add: fun_eq_iff matches_def default_options_def)

lemma findOne_eq:
  "BaseRepository_findOne this F m =
     (Inr (case filter (matches F) (rows m) of [] \<Rightarrow> None | r # _ \<Rightarrow> Some r), m)"
  by (simp add: BaseRepository_findOne_def manager_findOne_def)

lemma findOneOrFail_eq:
  "BaseRepository_findOneOrFail this F m =
     (case filter (matches F) (rows m) of
        [] \<Rightarrow> (Inl (EntityNotFound (entityName this)), m)
      | r # _ \<Rightarrow> (Inr (Some r), m))"
  by (simp add: BaseRepository_findOneOrFail_def findOne_eq promise_defs
      checkEntityExist_def of_entity_def split: list.splits)

lemma find_eq:
  "BaseRepository_find this options m =
     (Inr (filter (matches (case options of None \<Rightarrow> default_options | Some opts \<Rightarrow> opts))
            (rows m)), m)"
  by (simp add: BaseRepository_find_def manager_find_def)

lemma UserRepository_name: "entityName UserRepository = ''User''"
  by (simp add: entityName_def UserRepository_def BaseRepository_new_def user_table_def)

lemma UserService_name: "entityName (repository UserService) = ''User''"
  by (simp add: UserService_def UserRepository_name)

section \<open>Lookups that find nothing\<close>

text \<open>
  C1. When no record of the store matches the filter \<open>F\<close>, \<^verbatim>\<open>findOne(F)\<close> resolves
  to null, is not an error and leaves the store as it was, and \<^verbatim>\<open>findOneOrFail(F)\<close>
  rejects with \<^verbatim>\<open>EntityNotFound\<close> carrying the entity's name.
\<close>

theorem findOne_absent_findOneOrFail_raises:
  assumes "\<forall>r \<in> set (rows m). \<not> matches F r"
  shows "BaseRepository_findOne this F m = (Inr None, m) \<and>
         BaseRepository_findOneOrFail this F m = (Inl (EntityNotFound (entityName this)), m)"
proof -
  from assms have "filter (matches F) (rows m) = []"
    by simp
  then show ?thesis
    by (simp add: findOne_eq findOneOrFail_eq)
qed

theorem findOne_absent_findOneOrFail_raises_witness:
  "BaseRepository_findOne UserRepository (named ''B'') user_table = (Inr None, user_table) \<and>
   BaseRepository_findOneOrFail UserRepository (named ''B'') user_table =
     (Inl (EntityNotFound ''User''), user_table)"
proof -
  have "\<forall>r \<in> set (rows user_table). \<not> matches (named ''B'') r"
    by (simp add: user_table_def matches_def named_def alice_def bob_def)
  from findOne_absent_findOneOrFail_raises [OF this, of UserRepository] show ?thesis
    by (simp add: UserRepository_name)
qed

section \<open>findOrCreate\<close>

text \<open>
  C3. \<^verbatim>\<open>findOrCreate(filter, data)\<close> is documented to create the entity when none
  matches. On the sample table no user is named C, yet the call resolves to null and
  the table is as before: \<open>carol\<close> was not persisted.
\<close>

theorem findOrCreate_no_match_creates_nothing:
  "BaseRepository_findOrCreate UserRepository (named ''C'') carol user_table =
     (Inr None, user_table)"
  by (simp add: BaseRepository_findOrCreate_def truthy_def findOne_eq named_def matches_def
      user_table_def alice_def bob_def)

text \<open>
  C4. The test in \<^verbatim>\<open>findOrCreate\<close> is on a promise, which is always truthy: for every
  filter and data the call is the call \<^verbatim>\<open>findOne(filter)\<close>, so it resolves to the first
  match or to null when there is none, and the store is left unchanged (the creation
  path, which would add a row, never runs).
\<close>

theorem findOrCreate_is_findOne:
  "BaseRepository_findOrCreate this w d = BaseRepository_findOne this w \<and>
   snd (BaseRepository_findOrCreate this w d m) = m \<and>
   fst (BaseRepository_findOrCreate this w d m) =
     Inr (case filter (matches w) (rows m) of [] \<Rightarrow> None | r # _ \<Rightarrow> Some r)"
  by (simp add: BaseRepository_findOrCreate_def truthy_def findOne_eq)

section \<open>Counting\<close>

text \<open>
  C9. \<^verbatim>\<open>count(filter)\<close> of the service resolves to the number of records that match
  the filter (soft-deleted ones excluded, as in every default lookup), which is the
  length of the list \<^verbatim>\<open>find({ where: filter })\<close> resolves to; neither changes the store.
\<close>

theorem count_is_length_of_find:
  "BaseService_find this (Some \<lparr>where_opt = Some f, relations = None, withDeleted = False\<rparr>) m =
     (Inr (filter (\<lambda>r. f r \<and> deletedAt r = None) (rows m)), m) \<and>
   BaseService_count this f m =
     (Inr (length (filter (\<lambda>r. f r \<and> deletedAt r = None) (rows m))), m)"
  by (simp add: BaseService_find_def BaseService_count_def find_eq matches_where_only
      promise_defs)

section \<open>Creating and reading back\<close>

lemma where_id_Some [simp]: "where_id (Some i) r = (idE r = Some i)"
  by (simp add: where_id_def)

lemma fold_max_ge:
  "n \<le> fold (\<lambda>r n. case idE r of None \<Rightarrow> n | Some i \<Rightarrow> max i n) rs (n::int)"
proof (induction rs arbitrary: n)
  case Nil
  show ?case by simp
next
  case (Cons r rs)
  show ?case
  proof (cases "idE r")
    case None
    with Cons show ?thesis by simp
  next
    case (Some i)
    have "n \<le> max i n" by simp
    also have "\<dots> \<le> fold (\<lambda>r n. case idE r of None \<Rightarrow> n | Some i \<Rightarrow> max i n) rs (max i n)"
      by (rule Cons.IH)
    finally show ?thesis using Some by simp
  qed
qed

lemma fold_max_member:
  "r \<in> set rs \<Longrightarrow> idE r = Some i \<Longrightarrow>
   i \<le> fold (\<lambda>r n. case idE r of None \<Rightarrow> n | Some i \<Rightarrow> max i n) rs (n::int)"
proof (induction rs arbitrary: n)
  case Nil
  then show ?case by simp
next
  case (Cons x rs)
  show ?case
  proof (cases "r = x")
    case True
    have "i \<le> max i n" by simp
    also have "\<dots> \<le> fold (\<lambda>r n. case idE r of None \<Rightarrow> n | Some i \<Rightarrow> max i n) rs (max i n)"
      by (rule fold_max_ge)
    finally show ?thesis using True Cons.prems by simp
  next
    case False
    with Cons.prems have "r \<in> set rs" by simp
    from Cons.IH [OF this Cons.prems(2)] show ?thesis by simp
  qed
qed

text \<open>The identity the storage generates is carried by no row of the table.\<close>

lemma generated_id_fresh: "r \<in> set rs \<Longrightarrow> idE r \<noteq> Some (generated_id rs)"
proof
  assume "r \<in> set rs" and "idE r = Some (generated_id rs)"
  then have "generated_id rs \<le> fold (\<lambda>r n. case idE r of None \<Rightarrow> n | Some i \<Rightarrow> max i n) rs 0"
    by (rule fold_max_member)
  then show False by (simp add: generated_id_def)
qed

lemma filter_fresh_id: "filter (\<lambda>r. idE r = Some (generated_id rs) \<and> P r) rs = []"
  by (auto simp: filter_empty_conv dest: generated_id_fresh)

text \<open>
  What \<^verbatim>\<open>create\<close> of the service resolves to: the saved record when it is visible to
  a default lookup, null when it was saved with a deletion timestamp.
\<close>

lemma create_eq:
  assumes "manager_save d m = (Inr saved, m1)"
  shows "BaseService_create this d m =
           (Inr (if deletedAt d = None then Some saved else None), m1)"
  using assms
  by (auto simp: BaseService_create_def BaseRepository_create_def BaseService_findOne_def
      findOne_eq manager_save_def Let_def promise_defs matches_where_relations filter_fresh_id)

lemma create_returns:
  "deletedAt d = None \<Longrightarrow> \<exists>E m'. BaseService_create this d m = (Inr (Some E), m')"
  using create_eq [of d m _ _ this] by (simp add: manager_save_def Let_def)

lemma findOneByIdOrFail_saved:
  assumes "manager_save d m = (Inr saved, m1)" and "deletedAt d = None"
  shows "BaseService_findOneByIdOrFail this (generated_id (rows m)) m1 = (Inr (Some saved), m1)"
  using assms
  by (auto simp: BaseService_findOneByIdOrFail_def BaseService_findOneOrFail_def
      findOneOrFail_eq manager_save_def Let_def matches_where_relations filter_fresh_id)

lemma save_carol: "manager_save carol user_table = (Inr carol_saved, user_table_saved)"
  by (simp add: manager_save_def Let_def generated_id_def user_table_def user_table_saved_def
      carol_saved_def alice_def bob_def carol_def)

text \<open>
  C2. When \<^verbatim>\<open>create(data)\<close> of the service resolves to an entity \<open>E\<close>, that entity has
  an identity, and \<^verbatim>\<open>findOneByIdOrFail(E.id)\<close> on the resulting store resolves to \<open>E\<close>
  itself, so to a record equal to \<open>E\<close> in every field. Its \<^verbatim>\<open>createdAt\<close> and
  \<^verbatim>\<open>updatedAt\<close> are non-null, and its other columns but the identity are those of
  \<open>data\<close>.
\<close>

theorem create_then_findOneByIdOrFail:
  assumes "BaseService_create this d m = (Inr (Some E), m')"
  shows "\<exists>i. idE E = Some i \<and>
           BaseService_findOneByIdOrFail this i m' = (Inr (Some E), m') \<and>
           createdAt E \<noteq> None \<and> updatedAt E \<noteq> None \<and>
           deletedAt E = deletedAt d \<and> BaseEntity.more E = BaseEntity.more d"
proof -
  obtain saved m1 where s: "manager_save d m = (Inr saved, m1)"
    by (simp add: manager_save_def Let_def)
  from create_eq [OF s, of this] assms
  have live: "deletedAt d = None" and E: "E = saved" and m': "m' = m1"
    by (auto split: if_splits)
  from s have fields: "idE saved = Some (generated_id (rows m))"
    "createdAt saved \<noteq> None" "updatedAt saved \<noteq> None"
    "deletedAt saved = deletedAt d" "BaseEntity.more saved = BaseEntity.more d"
    by (auto simp: manager_save_def Let_def)
  from findOneByIdOrFail_saved [OF s live, of this] fields show ?thesis
    by (simp add: E m')
qed

theorem create_then_findOneByIdOrFail_witness:
  "BaseService_create UserService carol user_table = (Inr (Some carol_saved), user_table_saved) \<and>
   BaseService_findOneByIdOrFail UserService 3 user_table_saved =
     (Inr (Some carol_saved), user_table_saved) \<and>
   createdAt carol_saved = Some 20 \<and> updatedAt carol_saved = Some 20 \<and>
   deletedAt carol_saved = None \<and> BaseEntity.more carol_saved = BaseEntity.more carol"
proof -
  have made: "BaseService_create UserService carol user_table =
      (Inr (Some carol_saved), user_table_saved)"
    using create_eq [OF save_carol] by (simp add: carol_def)
  have "idE carol_saved = Some 3"
    by (simp add: carol_saved_def)
  with create_then_findOneByIdOrFail [OF made] made show ?thesis
    by (auto simp: carol_saved_def carol_def)
qed

text \<open>
  C10. \<^verbatim>\<open>create\<close> of the service reads the saved record back with the plain
  \<^verbatim>\<open>findOne\<close>: when that read by the assigned identity finds nothing, \<^verbatim>\<open>create\<close>
  resolves to null. It does not reject with \<^verbatim>\<open>EntityNotFound\<close>.
\<close>

theorem create_refetch_absent_resolves_null:
  assumes "BaseRepository_create (repository this) d m = (Inr saved, m1)"
    and "BaseRepository_findOne (repository this) (where_relations (where_id (idE saved)) None) m1 =
           (Inr None, m2)"
  shows "BaseService_create this d m = (Inr None, m2)"
  using assms by (simp add: BaseService_create_def BaseService_findOne_def promise_defs)

theorem create_refetch_absent_resolves_null_witness:
  "BaseService_create UserService (carol\<lparr>deletedAt := Some 3\<rparr>) user_table =
     (Inr None, \<lparr>rows = [alice, bob, carol_saved\<lparr>deletedAt := Some 3\<rparr>],
                 metadata_name = ''User'', clock = 21\<rparr>)"
proof -
  let ?saved = "carol_saved\<lparr>deletedAt := Some 3\<rparr>"
  let ?m1 = "\<lparr>rows = [alice, bob, ?saved], metadata_name = ''User'', clock = 21\<rparr>"
  have a: "BaseRepository_create (repository UserService) (carol\<lparr>deletedAt := Some 3\<rparr>) user_table =
      (Inr ?saved, ?m1)"
    by (simp add: BaseRepository_create_def manager_save_def Let_def generated_id_def
        user_table_def carol_saved_def alice_def bob_def carol_def)
  have b: "BaseRepository_findOne (repository UserService)
      (where_relations (where_id (idE ?saved)) None) ?m1 = (Inr None, ?m1)"
    by (simp add: findOne_eq matches_where_relations carol_saved_def
        alice_def bob_def carol_def)
  from create_refetch_absent_resolves_null [OF a b] show ?thesis .
qed

section \<open>Updating\<close>

lemma map_if_none:
  "\<forall>x \<in> set xs. \<not> P x \<Longrightarrow> map (\<lambda>r. if P r then f r else r) xs = xs"
  by (induction xs) auto

lemma map_if_hit:
  "x \<in> set xs \<Longrightarrow> P x \<Longrightarrow> f x \<in> set (map (\<lambda>r. if P r then f r else r) xs)"
  by (induction xs) auto

lemma update_eq:
  "BaseRepository_update this w d rel m =
     manager_findOne (where_relations w rel) (snd (manager_update w d m))"
  by (simp add: BaseRepository_update_def manager_update_def manager_findOne_def Let_def
      promise_defs)

lemma rows_update:
  "rows (snd (manager_update w d m)) =
     map (\<lambda>r. if w r then (d r)\<lparr>updatedAt := Some (clock m)\<rparr> else r)
       (rows m)"
  by (simp add: manager_update_def Let_def)

lemma updateOrFail_eq:
  "BaseRepository_updateOrFail this w d rel m =
     (case BaseRepository_update this w d rel m of
        (Inr None, m1) \<Rightarrow> (Inl (EntityNotFound (entityName this)), m1)
      | other \<Rightarrow> other)"
  by (simp add: BaseRepository_updateOrFail_def promise_defs checkEntityExist_def of_entity_def
      split: prod.splits sum.splits option.splits)

text \<open>
  C5. \<^verbatim>\<open>update(where, patch, relations)\<close> of the repository applies the patch to every
  row the condition \<^verbatim>\<open>where\<close> holds of, then resolves to what a lookup of
  \<^verbatim>\<open>{ where, relations }\<close> finds in the patched table. When that lookup finds nothing, \<^verbatim>\<open>update\<close> resolves to null and is
  not an error, while \<^verbatim>\<open>updateOrFail\<close>, and with it \<^verbatim>\<open>update\<close> of the service, rejects
  with \<^verbatim>\<open>EntityNotFound\<close>. So does \<^verbatim>\<open>updateById\<close> of the service for an identity that
  no row has.
\<close>

theorem update_absent_updateOrFail_raises:
  "rows (snd (BaseRepository_update this w d rel m)) =
     map (\<lambda>r. if w r then (d r)\<lparr>updatedAt := Some (clock m)\<rparr> else r)
       (rows m) \<and>
   rows (snd (manager_update w d m)) =
     map (\<lambda>r. if w r then (d r)\<lparr>updatedAt := Some (clock m)\<rparr> else r)
       (rows m) \<and>
   BaseRepository_update this w d rel m =
     manager_findOne (where_relations w rel) (snd (manager_update w d m)) \<and>
   ((\<forall>r \<in> set (rows (snd (manager_update w d m))). \<not> matches (where_relations w rel) r) \<longrightarrow>
      BaseRepository_update this w d rel m = (Inr None, snd (manager_update w d m)) \<and>
      BaseRepository_updateOrFail this w d rel m =
        (Inl (EntityNotFound (entityName this)), snd (manager_update w d m)) \<and>
      BaseService_update svc w d rel m =
        (Inl (EntityNotFound (entityName (repository svc))), snd (manager_update w d m))) \<and>
   ((\<forall>r \<in> set (rows m). idE r \<noteq> Some i) \<longrightarrow>
      BaseService_updateById svc i d rel m =
        (Inl (EntityNotFound (entityName (repository svc))), m\<lparr>clock := Suc (clock m)\<rparr>))"
proof (intro conjI impI)
  let ?m1 = "snd (manager_update w d m)"
  show "rows (snd (BaseRepository_update this w d rel m)) =
     map (\<lambda>r. if w r then (d r)\<lparr>updatedAt := Some (clock m)\<rparr> else r)
       (rows m)"
    by (simp add: update_eq manager_findOne_def rows_update)
  show "rows ?m1 =
     map (\<lambda>r. if w r then (d r)\<lparr>updatedAt := Some (clock m)\<rparr> else r)
       (rows m)"
    by (rule rows_update)
  show "BaseRepository_update this w d rel m = manager_findOne (where_relations w rel) ?m1"
    by (rule update_eq)
  {
    fix this' :: BaseRepository
    assume "\<forall>r \<in> set (rows ?m1). \<not> matches (where_relations w rel) r"
    then have "filter (matches (where_relations w rel)) (rows ?m1) = []"
      by (simp add: filter_empty_conv)
    then have u: "BaseRepository_update this' w d rel m = (Inr None, ?m1)"
      by (simp add: update_eq manager_findOne_def)
    then have "BaseRepository_updateOrFail this' w d rel m =
        (Inl (EntityNotFound (entityName this')), ?m1)"
      by (simp add: updateOrFail_eq)
    note u this
  } note absent = this
  assume none: "\<forall>r \<in> set (rows ?m1). \<not> matches (where_relations w rel) r"
  from absent(1) [OF none] show "BaseRepository_update this w d rel m = (Inr None, ?m1)" .
  from absent(2) [OF none] show "BaseRepository_updateOrFail this w d rel m =
      (Inl (EntityNotFound (entityName this)), ?m1)" .
  from absent(2) [OF none] show "BaseService_update svc w d rel m =
      (Inl (EntityNotFound (entityName (repository svc))), ?m1)"
    by (simp add: BaseService_update_def)
next
  let ?w = "where_id (Some i) :: 'a BaseEntity_scheme FindOptionsWhere"
  let ?m1 = "snd (manager_update ?w d m)"
  assume missing: "\<forall>r \<in> set (rows m). idE r \<noteq> Some i"
  then have "\<forall>r \<in> set (rows m). \<not> ?w r"
    by simp
  then have same: "rows ?m1 = rows m"
    by (simp only: rows_update map_if_none)
  have m1: "?m1 = m\<lparr>clock := Suc (clock m)\<rparr>"
    using same by (simp add: manager_update_def Let_def)
  from missing have "filter (matches (where_relations ?w rel)) (rows ?m1) = []"
    by (simp add: same matches_where_relations filter_empty_conv)
  then have "BaseRepository_update (repository svc) ?w d rel m = (Inr None, ?m1)"
    by (simp add: update_eq manager_findOne_def)
  then show "BaseService_updateById svc i d rel m =
      (Inl (EntityNotFound (entityName (repository svc))), m\<lparr>clock := Suc (clock m)\<rparr>)"
    by (simp add: BaseService_updateById_def BaseService_update_def updateOrFail_eq m1)
qed

theorem update_absent_updateOrFail_raises_witness:
  "rows user_table_patched = [alice, bob\<lparr>updatedAt := Some 20\<rparr>] \<and>
   BaseRepository_update UserRepository (where_id (Some 2)) rename_B None user_table =
     (Inr None, user_table_patched) \<and>
   BaseRepository_updateOrFail UserRepository (where_id (Some 2)) rename_B None user_table =
     (Inl (EntityNotFound ''User''), user_table_patched) \<and>
   BaseService_update UserService (where_id (Some 2)) rename_B None user_table =
     (Inl (EntityNotFound ''User''), user_table_patched) \<and>
   BaseService_updateById UserService 7 rename_B None user_table =
     (Inl (EntityNotFound ''User''), user_table\<lparr>clock := 21\<rparr>)"
proof -
  have m1: "snd (manager_update (where_id (Some 2)) rename_B user_table) = user_table_patched"
    by (simp add: manager_update_def user_table_def user_table_patched_def rename_B_def
        alice_def bob_def)
  have none: "\<forall>r \<in> set (rows (snd (manager_update (where_id (Some 2)) rename_B user_table))).
      \<not> matches (where_relations (where_id (Some 2)) None) r"
    unfolding m1
    by (simp add: matches_where_relations user_table_patched_def alice_def bob_def)
  have missing: "\<forall>r \<in> set (rows user_table). idE r \<noteq> Some 7"
    by (simp add: user_table_def alice_def bob_def)
  have clock: "Suc (clock user_table) = 21"
    by (simp add: user_table_def)
  note t = update_absent_updateOrFail_raises
    [where this = UserRepository and w = "where_id (Some 2)" and d = rename_B and rel = None
       and m = user_table and svc = UserService and i = 7]
  from t none have
    "BaseRepository_update UserRepository (where_id (Some 2)) rename_B None user_table =
       (Inr None, snd (manager_update (where_id (Some 2)) rename_B user_table)) \<and>
     BaseRepository_updateOrFail UserRepository (where_id (Some 2)) rename_B None user_table =
       (Inl (EntityNotFound (entityName UserRepository)),
        snd (manager_update (where_id (Some 2)) rename_B user_table)) \<and>
     BaseService_update UserService (where_id (Some 2)) rename_B None user_table =
       (Inl (EntityNotFound (entityName (repository UserService))),
        snd (manager_update (where_id (Some 2)) rename_B user_table))"
    by blast
  moreover from t missing have
    "BaseService_updateById UserService 7 rename_B None user_table =
       (Inl (EntityNotFound (entityName (repository UserService))),
        user_table\<lparr>clock := Suc (clock user_table)\<rparr>)"
    by blast
  moreover have "rows user_table_patched = [alice, bob\<lparr>updatedAt := Some 20\<rparr>]"
    by (simp add: user_table_patched_def)
  ultimately show ?thesis
    by (simp add: m1 clock UserRepository_name UserService_name)
qed

text \<open>
  The patch reaches a soft-deleted row: on the sample table,
  \<^verbatim>\<open>updateOrFail({ id: 2 }, { deletedAt: null })\<close> clears the deletion timestamp of
  \<open>bob\<close>, and the lookup that follows finds him.
\<close>

lemma updateOrFail_patch_reaches_soft_deleted:
  "BaseRepository_updateOrFail UserRepository (where_id (Some 2))
     (\<lambda>u. u\<lparr>deletedAt := None\<rparr>) None user_table =
   (Inr (Some (bob\<lparr>updatedAt := Some 20, deletedAt := None\<rparr>)),
    \<lparr>rows = [alice, bob\<lparr>updatedAt := Some 20, deletedAt := None\<rparr>],
       metadata_name = ''User'', clock = 21\<rparr>)"
  by (simp add: updateOrFail_eq update_eq manager_update_def manager_findOne_def
      matches_where_relations user_table_def alice_def bob_def)

section \<open>Soft delete and restore\<close>

lemma deleteOrFail_eq:
  "BaseRepository_deleteOrFail this w m =
     (if filter (\<lambda>r. w r \<and> deletedAt r = None) (rows m) = []
      then Inl (EntityNotFound (entityName this)) else Inr True,
      snd (manager_softDelete w m))"
  by (simp add: BaseRepository_deleteOrFail_def BaseRepository_softDelete_def
      manager_softDelete_def Let_def promise_defs checkEntityExist_def of_affected_def)

lemma restoreOrFail_eq:
  "BaseRepository_restoreOrFail this w m =
     (if filter (\<lambda>r. w r \<and> deletedAt r \<noteq> None) (rows m) = []
      then Inl (EntityNotFound (entityName this)) else Inr True,
      snd (manager_restore w m))"
  by (simp add: BaseRepository_restoreOrFail_def BaseRepository_restore_def
      manager_restore_def Let_def promise_defs checkEntityExist_def of_affected_def)

lemma rows_softDelete:
  "rows (snd (manager_softDelete w m)) =
     map (\<lambda>r. if w r \<and> deletedAt r = None
               then r\<lparr>updatedAt := Some (clock m), deletedAt := Some (clock m)\<rparr> else r) (rows m)"
  by (simp add: manager_softDelete_def Let_def)

lemma rows_restore:
  "rows (snd (manager_restore w m)) =
     map (\<lambda>r. if w r \<and> deletedAt r \<noteq> None
               then r\<lparr>updatedAt := Some (clock m), deletedAt := None\<rparr> else r) (rows m)"
  by (simp add: manager_restore_def Let_def)

lemma clock_softDelete: "clock (snd (manager_softDelete w m)) = Suc (clock m)"
  by (simp add: manager_softDelete_def Let_def)

lemma softDelete_by_id_hides:
  assumes "x \<in> set (rows (snd (manager_softDelete (where_id (Some i)) m)))" and "idE x = Some i"
  shows "deletedAt x \<noteq> None"
  using assms by (auto simp: rows_softDelete split: if_splits)

text \<open>
  C6. For a record of the store with identity \<open>i\<close> that is not soft-deleted,
  \<^verbatim>\<open>deleteOrFail({ id: i })\<close> resolves to true; a default \<^verbatim>\<open>find()\<close> on the resulting
  store returns no record with that identity; and a second \<^verbatim>\<open>deleteOrFail({ id: i })\<close>
  rejects with \<^verbatim>\<open>EntityNotFound\<close>, since the soft-deleted record no longer matches,
  and changes no row.
\<close>

theorem deleteOrFail_twice:
  assumes "r \<in> set (rows m)" and "idE r = Some i" and "deletedAt r = None"
  shows "\<exists>m1 m2 found.
           BaseRepository_deleteOrFail this (where_id (Some i)) m = (Inr True, m1) \<and>
           BaseRepository_find this None m1 = (Inr found, m1) \<and>
           (\<forall>x \<in> set found. idE x \<noteq> Some i) \<and>
           BaseRepository_deleteOrFail this (where_id (Some i)) m1 =
             (Inl (EntityNotFound (entityName this)), m2) \<and>
           rows m2 = rows m1"
proof -
  let ?m1 = "snd (manager_softDelete (where_id (Some i)) m)"
  let ?m2 = "snd (manager_softDelete (where_id (Some i)) ?m1)"
  from assms have "filter (\<lambda>r. where_id (Some i) r \<and> deletedAt r = None) (rows m) \<noteq> []"
    by (auto simp: filter_empty_conv)
  then have first: "BaseRepository_deleteOrFail this (where_id (Some i)) m = (Inr True, ?m1)"
    by (simp add: deleteOrFail_eq)
  have hidden: "\<forall>x \<in> set (rows ?m1). idE x = Some i \<longrightarrow> deletedAt x \<noteq> None"
    using softDelete_by_id_hides by blast
  then have none: "filter (\<lambda>r. where_id (Some i) r \<and> deletedAt r = None) (rows ?m1) = []"
    by (auto simp: filter_empty_conv)
  then have second: "BaseRepository_deleteOrFail this (where_id (Some i)) ?m1 =
      (Inl (EntityNotFound (entityName this)), ?m2)"
    by (simp add: deleteOrFail_eq)
  have "\<forall>x \<in> set (rows ?m1). \<not> (where_id (Some i) x \<and> deletedAt x = None)"
    using hidden by simp
  then have same: "rows ?m2 = rows ?m1"
    by (simp only: rows_softDelete [of _ ?m1] map_if_none)
  have found: "BaseRepository_find this None ?m1 =
      (Inr (filter (\<lambda>r. deletedAt r = None) (rows ?m1)), ?m1)"
    by (simp add: find_eq matches_default)
  have "\<forall>x \<in> set (filter (\<lambda>r. deletedAt r = None) (rows ?m1)). idE x \<noteq> Some i"
    using hidden by auto
  with first second same found show ?thesis by blast
qed

theorem deleteOrFail_twice_witness:
  "\<exists>m1 m2 found.
     BaseRepository_deleteOrFail UserRepository (where_id (Some 1)) user_table = (Inr True, m1) \<and>
     BaseRepository_find UserRepository None m1 = (Inr found, m1) \<and>
     (\<forall>x \<in> set found. idE x \<noteq> Some 1) \<and>
     BaseRepository_deleteOrFail UserRepository (where_id (Some 1)) m1 =
       (Inl (EntityNotFound ''User''), m2) \<and>
     rows m2 = rows m1"
proof -
  have "alice \<in> set (rows user_table)" and "idE alice = Some 1" and "deletedAt alice = None"
    by (simp_all add: user_table_def alice_def)
  from deleteOrFail_twice [OF this, of UserRepository] show ?thesis
    by (simp only: UserRepository_name)
qed

text \<open>
  C7. When no record with identity \<open>i\<close> is soft-deleted (the record was never deleted,
  or was restored already), \<^verbatim>\<open>restoreOrFail({ id: i })\<close> of the repository, and
  \<^verbatim>\<open>restoreById(i)\<close> of the service, reject with \<^verbatim>\<open>EntityNotFound\<close> and change no
  row: the restore matches only records whose \<^verbatim>\<open>deletedAt\<close> is non-null.
\<close>

theorem restoreOrFail_never_deleted_raises:
  assumes "\<forall>x \<in> set (rows m). idE x = Some i \<longrightarrow> deletedAt x = None"
  shows "\<exists>m'. BaseRepository_restoreOrFail this (where_id (Some i)) m =
                (Inl (EntityNotFound (entityName this)), m') \<and>
              BaseService_restoreById svc i m =
                (Inl (EntityNotFound (entityName (repository svc))), m') \<and>
              rows m' = rows m"
proof -
  let ?m' = "snd (manager_restore (where_id (Some i)) m)"
  from assms have none: "filter (\<lambda>r. where_id (Some i) r \<and> deletedAt r \<noteq> None) (rows m) = []"
    by (auto simp: filter_empty_conv)
  from assms have "\<forall>x \<in> set (rows m). \<not> (where_id (Some i) x \<and> deletedAt x \<noteq> None)"
    by auto
  then have "rows ?m' = rows m"
    by (simp only: rows_restore map_if_none)
  with none show ?thesis
    by (simp add: BaseService_restoreById_def restoreOrFail_eq)
qed

theorem restoreOrFail_never_deleted_raises_witness:
  "\<exists>m'. BaseRepository_restoreOrFail UserRepository (where_id (Some 1)) user_table =
          (Inl (EntityNotFound ''User''), m') \<and>
        BaseService_restoreById UserService 1 user_table = (Inl (EntityNotFound ''User''), m') \<and>
        rows m' = rows user_table"
proof -
  have "\<forall>x \<in> set (rows user_table). idE x = Some 1 \<longrightarrow> deletedAt x = None"
    by (simp add: user_table_def alice_def bob_def)
  from restoreOrFail_never_deleted_raises [OF this, of UserRepository UserService]
  show ?thesis
    by (simp only: UserRepository_name UserService_name)
qed

text \<open>
  C8. For a record \<open>r\<close> of the store with identity \<open>i\<close> that is not soft-deleted,
  \<^verbatim>\<open>deleteById(i)\<close> and then \<^verbatim>\<open>restoreById(i)\<close> both resolve to true; afterwards
  every record with that identity has a null \<^verbatim>\<open>deletedAt\<close>, and a default \<^verbatim>\<open>find()\<close>
  returns \<open>r\<close> again, with its update timestamp refreshed and nothing else changed.
\<close>

theorem deleteById_restoreById_roundtrip:
  assumes "r \<in> set (rows m)" and "idE r = Some i" and "deletedAt r = None"
  shows "\<exists>m1 m2 found.
           BaseService_deleteById svc i m = (Inr True, m1) \<and>
           BaseService_restoreById svc i m1 = (Inr True, m2) \<and>
           BaseService_find svc None m2 = (Inr found, m2) \<and>
           r\<lparr>updatedAt := Some (Suc (clock m))\<rparr> \<in> set found \<and>
           deletedAt (r\<lparr>updatedAt := Some (Suc (clock m))\<rparr>) = None \<and>
           (\<forall>x \<in> set (rows m2). idE x = Some i \<longrightarrow> deletedAt x = None)"
proof -
  let ?m1 = "snd (manager_softDelete (where_id (Some i)) m)"
  let ?m2 = "snd (manager_restore (where_id (Some i)) ?m1)"
  let ?d = "r\<lparr>updatedAt := Some (clock m), deletedAt := Some (clock m)\<rparr>"
  let ?r' = "r\<lparr>updatedAt := Some (Suc (clock m))\<rparr>"
  from assms have "filter (\<lambda>r. where_id (Some i) r \<and> deletedAt r = None) (rows m) \<noteq> []"
    by (auto simp: filter_empty_conv)
  then have del: "BaseService_deleteById svc i m = (Inr True, ?m1)"
    by (simp add: BaseService_deleteById_def deleteOrFail_eq)
  from assms have d_in: "?d \<in> set (rows ?m1)"
    by (force simp: rows_softDelete)
  then have "filter (\<lambda>r. where_id (Some i) r \<and> deletedAt r \<noteq> None) (rows ?m1) \<noteq> []"
    using assms(2) by (auto simp: filter_empty_conv intro!: bexI [of _ ?d])
  then have res: "BaseService_restoreById svc i ?m1 = (Inr True, ?m2)"
    by (simp add: BaseService_restoreById_def restoreOrFail_eq)
  have r'_eq: "?d\<lparr>updatedAt := Some (clock ?m1), deletedAt := None\<rparr> = ?r'"
    using assms(3) by (simp add: clock_softDelete)
  from assms(2) have "where_id (Some i) ?d \<and> deletedAt ?d \<noteq> None"
    by simp
  with d_in have "?d\<lparr>updatedAt := Some (clock ?m1), deletedAt := None\<rparr> \<in> set (rows ?m2)"
    unfolding rows_restore [of _ ?m1] by (rule map_if_hit)
  then have r'_in: "?r' \<in> set (rows ?m2)"
    by (simp only: r'_eq)
  have live: "\<forall>x \<in> set (rows ?m2). idE x = Some i \<longrightarrow> deletedAt x = None"
    by (subst rows_restore) (auto split: if_splits)
  have found: "BaseService_find svc None ?m2 =
      (Inr (filter (\<lambda>r. deletedAt r = None) (rows ?m2)), ?m2)"
    by (simp add: BaseService_find_def find_eq matches_default)
  from r'_in assms(3) have "?r' \<in> set (filter (\<lambda>r. deletedAt r = None) (rows ?m2))"
    by simp
  with del res found live assms(3) show ?thesis by auto
qed

theorem deleteById_restoreById_roundtrip_witness:
  "\<exists>m1 m2 found.
     BaseService_deleteById UserService 1 user_table = (Inr True, m1) \<and>
     BaseService_restoreById UserService 1 m1 = (Inr True, m2) \<and>
     BaseService_find UserService None m2 = (Inr found, m2) \<and>
     alice\<lparr>updatedAt := Some 21\<rparr> \<in> set found \<and>
     deletedAt (alice\<lparr>updatedAt := Some 21\<rparr>) = None \<and>
     (\<forall>x \<in> set (rows m2). idE x = Some 1 \<longrightarrow> deletedAt x = None)"
proof -
  have "alice \<in> set (rows user_table)" and "idE alice = Some 1" and "deletedAt alice = None"
    by (simp_all add: user_table_def alice_def)
  from deleteById_restoreById_roundtrip [OF this, of UserService]
  have "\<exists>m1 m2 found.
     BaseService_deleteById UserService 1 user_table = (Inr True, m1) \<and>
     BaseService_restoreById UserService 1 m1 = (Inr True, m2) \<and>
     BaseService_find UserService None m2 = (Inr found, m2) \<and>
     alice\<lparr>updatedAt := Some (Suc (clock user_table))\<rparr> \<in> set found \<and>
     deletedAt (alice\<lparr>updatedAt := Some (Suc (clock user_table))\<rparr>) = None \<and>
     (\<forall>x \<in> set (rows m2). idE x = Some 1 \<longrightarrow> deletedAt x = None)" .
  moreover have "Suc (clock user_table) = 21"
    by (simp add: user_table_def)
  ultimately show ?thesis by (simp only:)
qed

end
